theory Spec2Isabelle
  imports Complex_Main "HOL-Library.Char_ord" "HOL-Library.List_Lexorder"
begin

section \<open>Python values, exceptions and built-ins used by the package\<close>

text \<open>
  The package \<^verbatim>\<open>atmo_model\<close> is embedded function by function. Conventions:
  \<^item> a Python \<^verbatim>\<open>float\<close> is a \<^typ>\<open>real\<close>: arithmetic is exact, rounding and the
    non-finite floats (\<^verbatim>\<open>nan\<close>, \<^verbatim>\<open>inf\<close>) are not represented. Where Python would produce
    a non-finite float from text, the model answers \<open>Inl (NotModelled _)\<close>;
  \<^item> a Python \<^verbatim>\<open>int\<close> is an \<^typ>\<open>int\<close>, a \<^verbatim>\<open>str\<close> is a \<^typ>\<open>string\<close> (code points below 256);
  \<^item> a \<^verbatim>\<open>datetime\<close> is the number of microseconds since \<^verbatim>\<open>datetime.min\<close>, a
    \<^verbatim>\<open>timedelta\<close> a number of microseconds;
  \<^item> a function that can raise returns \<open>error + 'a\<close>, \<open>Inl\<close> carrying the exception;
  \<^item> interpreter resource limits (recursion depth, the digit limit of \<^verbatim>\<open>int(str)\<close>) are
    not modelled.
\<close>

datatype error =
    RuntimeError string
  | ValueError string
  | TypeError
  | KeyError string
  | IndexError
  | OverflowError
  | ZeroDivisionError
  | JSONDecodeError
  | NotModelled string

text \<open>\<^verbatim>\<open>d[key]\<close> on a dictionary.\<close>

definition dict_item :: "(string \<rightharpoonup> 'v) \<Rightarrow> string \<Rightarrow> error + 'v" where
  "dict_item d k = (case d k of None \<Rightarrow> Inl (KeyError k) | Some v \<Rightarrow> Inr v)"

text \<open>\<^verbatim>\<open>a / b\<close> on floats.\<close>

definition py_truediv :: "real \<Rightarrow> real \<Rightarrow> error + real" where
  "py_truediv a b = (if b = 0 then Inl ZeroDivisionError else Inr (a / b))"

text \<open>\<^verbatim>\<open>xs[i]\<close> on a list, for the index an \<^verbatim>\<open>int\<close>.\<close>

definition list_item :: "'a list \<Rightarrow> int \<Rightarrow> error + 'a" where
  "list_item xs i =
     (if 0 \<le> i \<and> i < int (length xs) then Inr (xs ! nat i)
      else if i < 0 \<and> - int (length xs) \<le> i then Inr (xs ! nat (int (length xs) + i))
      else Inl IndexError)"

text \<open>
  Slices \<^verbatim>\<open>xs[lo:hi]\<close> and \<^verbatim>\<open>xs[:hi]\<close>: a negative bound counts from the end, and both
  bounds are clipped to the list.
\<close>

definition slice_bound :: "int \<Rightarrow> int \<Rightarrow> int" where
  "slice_bound n i = (if i < 0 then max (i + n) 0 else min i n)"

definition py_slice :: "'a list \<Rightarrow> int \<Rightarrow> int \<Rightarrow> 'a list" where
  "py_slice xs lo hi =
     (let n = int (length xs); a = slice_bound n lo; b = slice_bound n hi
      in take (nat (b - a)) (drop (nat a) xs))"

definition py_slice_to :: "'a list \<Rightarrow> int \<Rightarrow> 'a list" where
  "py_slice_to xs hi = take (nat (slice_bound (int (length xs)) hi)) xs"

text \<open>\<^verbatim>\<open>range(n)\<close> and \<^verbatim>\<open>range(0, stop, step)\<close>, as the list of their values.\<close>

definition py_range :: "int \<Rightarrow> int list" where
  "py_range n = map int [0..<nat n]"

definition py_range_step :: "int \<Rightarrow> int \<Rightarrow> error + int list" where
  "py_range_step stop step =
     (if step = 0 then Inl (ValueError ''range() arg 3 must not be zero'')
      else if 0 < step then
        Inr (map (\<lambda>k. int k * step) [0..<(if 0 < stop then nat ((stop - 1) div step + 1) else 0)])
      else
        Inr (map (\<lambda>k. int k * step) [0..<(if stop < 0 then nat ((- stop - 1) div (- step) + 1) else 0)]))"

text \<open>
  \<^verbatim>\<open>datetime + timedelta\<close>: the sum, or \<^verbatim>\<open>OverflowError\<close> outside the years 1 to 9999.
\<close>

definition datetime_max :: int where
  "datetime_max = 3652059 * 86400 * 1000000 - 1"

definition datetime_add :: "int \<Rightarrow> int \<Rightarrow> error + int" where
  "datetime_add t d =
     (if 0 \<le> t + d \<and> t + d \<le> datetime_max then Inr (t + d) else Inl OverflowError)"

definition total_seconds :: "int \<Rightarrow> real" where
  "total_seconds d = real_of_int d / 1000000"

definition timedelta_hours :: "int \<Rightarrow> int" where
  "timedelta_hours h = h * 3600 * 1000000"

section \<open>Library functions\<close>

datatype pyval =
    PNone
  | PBool bool
  | PInt int
  | PFloat real
  | PStr string
  | PList "pyval list"
  | PTuple "pyval list"
  | PDict "(string \<times> pyval) list"
  | PObject string

definition is_digit :: "char \<Rightarrow> bool" where
  "is_digit c = (c \<in> set ''0123456789'')"

definition digit_val :: "char \<Rightarrow> int" where
  "digit_val c = of_char c - 48"

definition digits_val :: "string \<Rightarrow> int" where
  "digits_val ds = foldl (\<lambda>a c. 10 * a + digit_val c) 0 ds"

definition float_overflows :: "real \<Rightarrow> bool" where
  "float_overflows x = (2 ^ 1024 - 2 ^ 970 \<le> \<bar>x\<bar>)"

definition pow10 :: "int \<Rightarrow> real" where
  "pow10 e = (if 0 \<le> e then 10 ^ nat e else 1 / 10 ^ nat (- e))"

definition decimal_value :: "string \<Rightarrow> string \<Rightarrow> int \<Rightarrow> real" where
  "decimal_value ip fp e =
     (real_of_int (digits_val ip) + real_of_int (digits_val fp) / 10 ^ length fp) * pow10 e"

subsection \<open>\<^verbatim>\<open>float(str)\<close>\<close>

definition py_isspace :: "char \<Rightarrow> bool" where
  "py_isspace c = ((of_char c :: nat) \<in> set [9, 10, 11, 12, 13, 32, 133, 160])"

definition py_strip :: "string \<Rightarrow> string" where
  "py_strip s = rev (dropWhile py_isspace (rev (dropWhile py_isspace s)))"

definition ascii_lower :: "char \<Rightarrow> char" where
  "ascii_lower c =
     (if (65::nat) \<le> of_char c \<and> (of_char c :: nat) \<le> 90 then char_of (of_char c + (32::nat)) else c)"

fun scan_more :: "string \<Rightarrow> string \<Rightarrow> string \<times> string" where
  "scan_more acc [] = (acc, [])"
| "scan_more acc [c] = (if is_digit c then (acc @ [c], []) else (acc, [c]))"
| "scan_more acc (c # d # r) =
     (if is_digit c then scan_more (acc @ [c]) (d # r)
      else if c = CHR ''_'' \<and> is_digit d then scan_more (acc @ [d]) r
      else (acc, c # d # r))"

definition scan_digitpart :: "string \<Rightarrow> string \<times> string" where
  "scan_digitpart s =
     (case s of [] \<Rightarrow> ([], [])
      | c # r \<Rightarrow> if is_digit c then scan_more [c] r else ([], s))"

definition split_sign :: "string \<Rightarrow> real \<times> string" where
  "split_sign s =
     (case s of [] \<Rightarrow> (1, [])
      | c # r \<Rightarrow> if c = CHR ''-'' then (- 1, r) else if c = CHR ''+'' then (1, r) else (1, s))"

definition float_number :: "string \<Rightarrow> real option" where
  "float_number b =
     (let (ip, r1) = scan_digitpart b;
          (fp, r2) = (case r1 of [] \<Rightarrow> ([], r1)
                      | c # r \<Rightarrow> if c = CHR ''.'' then scan_digitpart r else ([], r1))
      in if ip = [] \<and> fp = [] then None
         else (case r2 of [] \<Rightarrow> Some (decimal_value ip fp 0)
               | c # r \<Rightarrow>
                   if c = CHR ''e'' \<or> c = CHR ''E'' then
                     (let (esg, r3) = split_sign r; (ed, r4) = scan_digitpart r3
                      in if ed = [] \<or> r4 \<noteq> [] then None
                         else Some (decimal_value ip fp
                                      (if esg < 0 then - digits_val ed else digits_val ed)))
                   else None))"

definition float_str :: "string \<Rightarrow> error + real" where
  "float_str s =
     (let (sg, body) = split_sign (py_strip s)
      in if map ascii_lower body \<in> set [''inf'', ''infinity'', ''nan'']
         then Inl (NotModelled ''non-finite float'')
         else (case float_number body of
                 None \<Rightarrow> Inl (ValueError ''could not convert string to float'')
               | Some v \<Rightarrow>
                   if float_overflows v then Inl (NotModelled ''non-finite float'')
                   else Inr (sg * v)))"

subsection \<open>\<^verbatim>\<open>float(x)\<close>\<close>

fun py_float :: "pyval \<Rightarrow> error + real" where
  "py_float (PFloat x) = Inr x"
| "py_float (PInt i) = (if float_overflows (real_of_int i) then Inl OverflowError else Inr (real_of_int i))"
| "py_float (PBool b) = Inr (if b then 1 else 0)"
| "py_float (PStr s) = float_str s"
| "py_float PNone = Inl TypeError"
| "py_float (PList xs) = Inl TypeError"
| "py_float (PTuple xs) = Inl TypeError"
| "py_float (PDict kvs) = Inl TypeError"
| "py_float (PObject s) = Inl TypeError"


subsection \<open>\<^verbatim>\<open>re.findall(r"[-+]?[0-9]*\.?[0-9]+", text)\<close>\<close>

text \<open>
  A match at the head of \<open>s\<close>: an optional sign, the longest run of digits, and then a
  point followed by the longest non-empty run of digits; when no digit follows a point,
  the match is the sign and the digits alone, and needs one digit at least.
\<close>

definition match_at :: "string \<Rightarrow> string option" where
  "match_at s =
     (let (sg, r) = (case s of [] \<Rightarrow> ([], [])
                     | c # t \<Rightarrow> if c = CHR ''-'' \<or> c = CHR ''+'' then ([c], t) else ([], s));
          ds = takeWhile is_digit r;
          r2 = dropWhile is_digit r
      in (case r2 of
            [] \<Rightarrow> if ds = [] then None else Some (sg @ ds)
          | c # r3 \<Rightarrow>
              if c = CHR ''.'' \<and> takeWhile is_digit r3 \<noteq> []
              then Some (sg @ ds @ [c] @ takeWhile is_digit r3)
              else if ds = [] then None else Some (sg @ ds)))"

lemma match_at_nonempty: "match_at s = Some m \<Longrightarrow> m \<noteq> []"
  by (auto simp add: match_at_def Let_def split: list.splits if_splits prod.splits)

function findall :: "string \<Rightarrow> string list" where
  "findall s =
     (if s = [] then []
      else (case match_at s of
              None \<Rightarrow> findall (tl s)
            | Some m \<Rightarrow> m # findall (drop (length m) s)))"
  by pat_completeness auto
termination
proof (relation "measure length")
  show "wf (measure length)" by simp
next
  fix s :: string
  assume "s \<noteq> []"
  then show "(tl s, s) \<in> measure length" by (cases s) simp_all
next
  fix s m :: string
  assume "s \<noteq> []" and "match_at s = Some m"
  then have "m \<noteq> []" by (simp add: match_at_nonempty)
  then show "(drop (length m) s, s) \<in> measure length" using \<open>s \<noteq> []\<close> by (cases s) simp_all
qed


subsection \<open>\<^verbatim>\<open>json.loads\<close>\<close>

definition json_ws :: "char \<Rightarrow> bool" where
  "json_ws c = (c \<in> set [CHR '' '', CHR 0x09, CHR 0x0A, CHR 0x0D])"

definition skip_ws :: "string \<Rightarrow> string" where
  "skip_ws s = dropWhile json_ws s"

definition hex_val :: "char \<Rightarrow> nat option" where
  "hex_val c =
     (let n = (of_char c :: nat)
      in if 48 \<le> n \<and> n \<le> 57 then Some (n - 48)
         else if 65 \<le> n \<and> n \<le> 70 then Some (n - 55)
         else if 97 \<le> n \<and> n \<le> 102 then Some (n - 87)
         else None)"

definition unescape :: "char \<Rightarrow> char option" where
  "unescape c =
     (if c = CHR 0x22 then Some (CHR 0x22)
      else if c = CHR 0x5C then Some (CHR 0x5C)
      else if c = CHR ''/'' then Some (CHR ''/'')
      else if c = CHR ''b'' then Some (CHR 0x08)
      else if c = CHR ''f'' then Some (CHR 0x0C)
      else if c = CHR ''n'' then Some (CHR 0x0A)
      else if c = CHR ''r'' then Some (CHR 0x0D)
      else if c = CHR ''t'' then Some (CHR 0x09)
      else None)"

text \<open>
  The body of a string after its opening quote (strict mode): the decoded string and the
  text after the closing quote. An escape \<^verbatim>\<open>\uXXXX\<close> of a code point above 255 has no
  \<^typ>\<open>char\<close>.
\<close>

fun scanstring :: "string \<Rightarrow> string \<Rightarrow> error + (string \<times> string)" where
  "scanstring [] acc = Inl JSONDecodeError"
| "scanstring (c # r) acc =
     (if c = CHR 0x22 then Inr (acc, r)
      else if c = CHR 0x5C then
        (case r of
           [] \<Rightarrow> Inl JSONDecodeError
         | e # r1 \<Rightarrow>
             if e = CHR ''u'' then
               (case r1 of
                  h1 # h2 # h3 # h4 # r2 \<Rightarrow>
                    (case (hex_val h1, hex_val h2, hex_val h3, hex_val h4) of
                       (Some a, Some b, Some c', Some d) \<Rightarrow>
                         if a = 0 \<and> b = 0
                         then scanstring r2 (acc @ [char_of (16 * c' + d)])
                         else Inl (NotModelled ''code point above 255'')
                     | _ \<Rightarrow> Inl JSONDecodeError)
                | _ \<Rightarrow> Inl JSONDecodeError)
             else (case unescape e of
                     None \<Rightarrow> Inl JSONDecodeError
                   | Some ch \<Rightarrow> scanstring r1 (acc @ [ch])))
      else if (of_char c :: nat) < 32 then Inl JSONDecodeError
      else scanstring r (acc @ [c]))"

text \<open>
  A number at the head of the text, as \<^verbatim>\<open>NUMBER_RE\<close> matches it: an integer part, an
  optional fraction and an optional exponent; an \<^verbatim>\<open>int\<close> when it has neither.
\<close>

definition match_number :: "string \<Rightarrow> (error + pyval) \<times> string" where
  "match_number s =
     (let (neg, r0) = (case s of [] \<Rightarrow> (False, [])
                       | c # t \<Rightarrow> if c = CHR ''-'' then (True, t) else (False, s))
      in (case r0 of
            [] \<Rightarrow> (Inl JSONDecodeError, s)
          | d # r1 \<Rightarrow>
              if \<not> is_digit d then (Inl JSONDecodeError, s)
              else
                (let (ip, r2) = (if d = CHR ''0'' then ([d], r1)
                                 else (d # takeWhile is_digit r1, dropWhile is_digit r1));
                     (fp, r3) = (case r2 of [] \<Rightarrow> (None, r2)
                                 | c # f \<Rightarrow>
                                     if c = CHR ''.'' \<and> takeWhile is_digit f \<noteq> []
                                     then (Some (takeWhile is_digit f), dropWhile is_digit f)
                                     else (None, r2));
                     (ex, r4) = (case r3 of [] \<Rightarrow> (None, r3)
                                 | c # x \<Rightarrow>
                                     if c = CHR ''e'' \<or> c = CHR ''E'' then
                                       (let (esg, y) = split_sign x
                                        in if takeWhile is_digit y \<noteq> []
                                           then (Some (if esg < 0
                                                       then - digits_val (takeWhile is_digit y)
                                                       else digits_val (takeWhile is_digit y)),
                                                 dropWhile is_digit y)
                                           else (None, r3))
                                     else (None, r3))
                 in if fp = None \<and> ex = None
                    then (Inr (PInt (if neg then - digits_val ip else digits_val ip)), r4)
                    else
                      (let v = decimal_value ip (case fp of None \<Rightarrow> [] | Some f \<Rightarrow> f)
                                 (case ex of None \<Rightarrow> 0 | Some e \<Rightarrow> e)
                       in if float_overflows v then (Inl (NotModelled ''non-finite float''), r4)
                          else (Inr (PFloat (if neg then - v else v)), r4)))))"

text \<open>\<^verbatim>\<open>d[k] = v\<close> on a dictionary kept as the list of its items in insertion order.\<close>

fun dict_set :: "string \<Rightarrow> 'v \<Rightarrow> (string \<times> 'v) list \<Rightarrow> (string \<times> 'v) list" where
  "dict_set k v [] = [(k, v)]"
| "dict_set k v ((k', v') # kvs) =
     (if k = k' then (k, v) # kvs else (k', v') # dict_set k v kvs)"

text \<open>
  The scanner. The first argument bounds the depth of the calls; \<^verbatim>\<open>json.loads\<close> starts
  it above twice the length of the text.
\<close>

fun scan_once :: "nat \<Rightarrow> string \<Rightarrow> error + (pyval \<times> string)"
  and array_loop :: "nat \<Rightarrow> string \<Rightarrow> pyval list \<Rightarrow> error + (pyval \<times> string)"
  and object_loop :: "nat \<Rightarrow> string \<Rightarrow> (string \<times> pyval) list \<Rightarrow> error + (pyval \<times> string)"
where
  "scan_once 0 s = Inl (NotModelled ''depth'')"
| "scan_once (Suc n) s =
     (case s of
        [] \<Rightarrow> Inl JSONDecodeError
      | c # r \<Rightarrow>
          if c = CHR 0x22 then
            (case scanstring r [] of Inl e \<Rightarrow> Inl e | Inr (str, r') \<Rightarrow> Inr (PStr str, r'))
          else if c = CHR ''{'' then
            (case skip_ws r of
               [] \<Rightarrow> Inl JSONDecodeError
             | c1 # r1 \<Rightarrow>
                 if c1 = CHR ''}'' then Inr (PDict [], r1)
                 else if c1 = CHR 0x22 then object_loop n r1 []
                 else Inl JSONDecodeError)
          else if c = CHR ''['' then
            (case skip_ws r of
               [] \<Rightarrow> Inl JSONDecodeError
             | c1 # r1 \<Rightarrow>
                 if c1 = CHR '']'' then Inr (PList [], r1)
                 else array_loop n (c1 # r1) [])
          else if c = CHR ''n'' \<and> take 4 s = ''null'' then Inr (PNone, drop 4 s)
          else if c = CHR ''t'' \<and> take 4 s = ''true'' then Inr (PBool True, drop 4 s)
          else if c = CHR ''f'' \<and> take 5 s = ''false'' then Inr (PBool False, drop 5 s)
          else
            (case match_number s of
               (Inr v, r') \<Rightarrow> Inr (v, r')
             | (Inl (NotModelled m), r') \<Rightarrow> Inl (NotModelled m)
             | (Inl e, r') \<Rightarrow>
                 if take 3 s = ''NaN'' \<or> take 8 s = ''Infinity'' \<or> take 9 s = ''-Infinity''
                 then Inl (NotModelled ''non-finite float'')
                 else Inl JSONDecodeError))"
| "array_loop 0 s acc = Inl (NotModelled ''depth'')"
| "array_loop (Suc n) s acc =
     (case scan_once n s of
        Inl e \<Rightarrow> Inl e
      | Inr (v, r) \<Rightarrow>
          (case skip_ws r of
             [] \<Rightarrow> Inl JSONDecodeError
           | c # r1 \<Rightarrow>
               if c = CHR '']'' then Inr (PList (acc @ [v]), r1)
               else if c = CHR '','' then array_loop n (skip_ws r1) (acc @ [v])
               else Inl JSONDecodeError))"
| "object_loop 0 s pairs = Inl (NotModelled ''depth'')"
| "object_loop (Suc n) s pairs =
     (case scanstring s [] of
        Inl e \<Rightarrow> Inl e
      | Inr (key, r) \<Rightarrow>
          (case skip_ws r of
             [] \<Rightarrow> Inl JSONDecodeError
           | c # r1 \<Rightarrow>
               if c \<noteq> CHR '':'' then Inl JSONDecodeError
               else
                 (case scan_once n (skip_ws r1) of
                    Inl e \<Rightarrow> Inl e
                  | Inr (v, r2) \<Rightarrow>
                      (case skip_ws r2 of
                         [] \<Rightarrow> Inl JSONDecodeError
                       | c2 # r3 \<Rightarrow>
                           if c2 = CHR ''}'' then Inr (PDict (dict_set key v pairs), r3)
                           else if c2 = CHR '','' then
                             (case skip_ws r3 of
                                [] \<Rightarrow> Inl JSONDecodeError
                              | c3 # r4 \<Rightarrow>
                                  if c3 = CHR 0x22 then object_loop n r4 (dict_set key v pairs)
                                  else Inl JSONDecodeError)
                           else Inl JSONDecodeError))))"

definition json_loads :: "string \<Rightarrow> error + pyval" where
  "json_loads s =
     (case scan_once (Suc (2 * length s)) (skip_ws s) of
        Inl e \<Rightarrow> Inl e
      | Inr (v, r) \<Rightarrow> if skip_ws r = [] then Inr v else Inl JSONDecodeError)"

section \<open>core.py\<close>

record AtmosphericState =
  timestamp :: int
  temperature_c :: real
  relative_humidity :: real
  precipitation_mm :: real
  soil_moisture :: real

datatype meta = MStr string | MFeatures "(string \<times> real) list"

record SoilMoistureForecast =
  issued_at :: int
  horizon_hours :: int
  forecast_values :: "real list"
  metadata :: "string \<rightharpoonup> meta"

record DeterministicAtmosphericModel =
  evaporation_rate :: real
  percolation_rate :: real

text \<open>\<^verbatim>\<open>DeterministicAtmosphericModel()\<close> with the default rates.\<close>

definition default_model :: DeterministicAtmosphericModel where
  "default_model = \<lparr>evaporation_rate = 15 / 1000, percolation_rate = 1 / 100\<rparr>"

subsection \<open>\<^verbatim>\<open>evolve_state\<close>\<close>

text \<open>
  The divisions of \<^verbatim>\<open>evolve_state\<close> are by the constants \<^verbatim>\<open>3600.0\<close> and \<^verbatim>\<open>100.0\<close>. The
  dictionary lookups and the \<^verbatim>\<open>datetime\<close> addition can raise.
\<close>

definition evolve_state ::
  "AtmosphericState \<Rightarrow> (string \<rightharpoonup> real) \<Rightarrow> int \<Rightarrow> DeterministicAtmosphericModel
     \<Rightarrow> error + AtmosphericState" where
  "evolve_state state weather step model =
     (let hours = total_seconds step / 3600 in
      case dict_item weather ''temperature_c'' of Inl e \<Rightarrow> Inl e | Inr temperature \<Rightarrow>
     (case dict_item weather ''relative_humidity'' of Inl e \<Rightarrow> Inl e | Inr humidity \<Rightarrow>
     (case dict_item weather ''precipitation_mm'' of Inl e \<Rightarrow> Inl e | Inr precipitation \<Rightarrow>
      let evapotranspiration = (1 - humidity / 100) * evaporation_rate model * hours;
          infiltration = precipitation * percolation_rate model * hours;
          new_soil_moisture = soil_moisture state + infiltration - evapotranspiration;
          new_soil_moisture = max 0 (min 1 new_soil_moisture)
      in (case datetime_add (timestamp state) step of Inl e \<Rightarrow> Inl e | Inr ts \<Rightarrow>
         Inr \<lparr>timestamp = ts,
              temperature_c = temperature,
              relative_humidity = humidity,
              precipitation_mm = precipitation,
              soil_moisture = new_soil_moisture\<rparr>))))"

subsection \<open>\<^verbatim>\<open>DeterministicAtmosphericModel.predict\<close>\<close>

fun predict_loop ::
  "DeterministicAtmosphericModel \<Rightarrow> (string \<rightharpoonup> real) list \<Rightarrow> int list \<Rightarrow> AtmosphericState
     \<Rightarrow> AtmosphericState list \<Rightarrow> error + AtmosphericState list" where
  "predict_loop self weather_inputs [] current_state states = Inr states"
| "predict_loop self weather_inputs (hour # hours) current_state states =
     (case list_item weather_inputs hour of Inl e \<Rightarrow> Inl e | Inr weather \<Rightarrow>
     (case evolve_state current_state weather (timedelta_hours 1) self of Inl e \<Rightarrow> Inl e
      | Inr next_state \<Rightarrow>
          predict_loop self weather_inputs hours next_state (states @ [next_state])))"

definition predict ::
  "DeterministicAtmosphericModel \<Rightarrow> AtmosphericState \<Rightarrow> (string \<rightharpoonup> real) list \<Rightarrow> int
     \<Rightarrow> error + AtmosphericState list" where
  "predict self initial_state weather_inputs hours_ahead =
     predict_loop self weather_inputs
       (py_range (min hours_ahead (int (length weather_inputs)))) initial_state []"

text \<open>
  A normalised weather record (the records \<^verbatim>\<open>load_numerical_weather_outputs\<close> builds)
  holds the four keys.
\<close>

definition normalised_record :: "(string \<rightharpoonup> real) \<Rightarrow> bool" where
  "normalised_record w =
     (w ''temperature_c'' \<noteq> None \<and> w ''relative_humidity'' \<noteq> None
        \<and> w ''precipitation_mm'' \<noteq> None \<and> w ''hour_index'' \<noteq> None)"

subsection \<open>\<^verbatim>\<open>export_soil_moisture_features\<close>\<close>

text \<open>The returned dictionary, as the list of its items in insertion order.\<close>

definition export_soil_moisture_features ::
  "AtmosphericState list \<Rightarrow> error + (string \<times> real) list" where
  "export_soil_moisture_features states =
     (if states = [] then
        Inr [(''mean_temperature'', 0), (''mean_humidity'', 0),
             (''total_precipitation'', 0), (''final_soil_moisture'', 0)]
      else
        case py_truediv (sum_list (map temperature_c states)) (real (length states)) of
          Inl e \<Rightarrow> Inl e
        | Inr mean_temperature \<Rightarrow>
       (case py_truediv (sum_list (map relative_humidity states)) (real (length states)) of
          Inl e \<Rightarrow> Inl e
        | Inr mean_humidity \<Rightarrow>
       (let total_precipitation = sum_list (map precipitation_mm states) in
        case list_item states (- 1) of
          Inl e \<Rightarrow> Inl e
        | Inr final_state \<Rightarrow>
            Inr [(''mean_temperature'', mean_temperature), (''mean_humidity'', mean_humidity),
                 (''total_precipitation'', total_precipitation),
                 (''final_soil_moisture'', soil_moisture final_state)])))"

subsection \<open>\<^verbatim>\<open>SoilMoistureForecast.to_daily_averages\<close>\<close>

fun daily_loop :: "real list \<Rightarrow> int \<Rightarrow> int list \<Rightarrow> real list \<Rightarrow> error + real list" where
  "daily_loop vs hours_per_day [] averages = Inr averages"
| "daily_loop vs hours_per_day (day # days) averages =
     (let chunk = py_slice vs day (day + hours_per_day)
      in if chunk = [] then Inr averages
         else (case py_truediv (sum_list chunk) (real (length chunk)) of
                 Inl e \<Rightarrow> Inl e
               | Inr average \<Rightarrow> daily_loop vs hours_per_day days (averages @ [average])))"

definition to_daily_averages :: "SoilMoistureForecast \<Rightarrow> int \<Rightarrow> error + real list" where
  "to_daily_averages self hours_per_day =
     (case py_range_step (horizon_hours self) hours_per_day of
        Inl e \<Rightarrow> Inl e
      | Inr days \<Rightarrow> daily_loop (forecast_values self) hours_per_day days [])"

subsection \<open>\<^verbatim>\<open>load_numerical_weather_outputs\<close>\<close>

text \<open>\<^verbatim>\<open>float(entry.get(key, default))\<close> on a raw weather entry.\<close>

definition entry_float :: "(string \<rightharpoonup> pyval) \<Rightarrow> string \<Rightarrow> pyval \<Rightarrow> error + real" where
  "entry_float entry key fallback =
     py_float (case entry key of None \<Rightarrow> fallback | Some v \<Rightarrow> v)"

fun load_loop ::
  "(string \<rightharpoonup> pyval) list \<Rightarrow> int \<Rightarrow> (string \<rightharpoonup> real) list \<Rightarrow> error + (string \<rightharpoonup> real) list" where
  "load_loop [] index normalised = Inr normalised"
| "load_loop (entry # entries) index normalised =
     (case entry_float entry ''temperature_c'' (PFloat 0) of Inl e \<Rightarrow> Inl e | Inr temperature \<Rightarrow>
     (case entry_float entry ''relative_humidity'' (PFloat 0) of Inl e \<Rightarrow> Inl e | Inr humidity \<Rightarrow>
     (case entry_float entry ''precipitation_mm'' (PFloat 0) of Inl e \<Rightarrow> Inl e | Inr precipitation \<Rightarrow>
     (case entry_float entry ''hour_index'' (PInt index) of Inl e \<Rightarrow> Inl e | Inr hour_index \<Rightarrow>
        load_loop entries (index + 1)
          (normalised @ [[''temperature_c'' \<mapsto> temperature,
                          ''relative_humidity'' \<mapsto> humidity,
                          ''precipitation_mm'' \<mapsto> precipitation,
                          ''hour_index'' \<mapsto> hour_index]])))))"

definition load_numerical_weather_outputs ::
  "(string \<rightharpoonup> pyval) list \<Rightarrow> error + (string \<rightharpoonup> real) list" where
  "load_numerical_weather_outputs raw_weather_data = load_loop raw_weather_data 0 []"

section \<open>llm_postprocessing.py\<close>

text \<open>
  Library functions whose results depend on the binary representation of floats, or on
  the calendar, are parameters of the model: \<^verbatim>\<open>json.dumps\<close>, \<^verbatim>\<open>repr\<close> of a float, the
  format specification \<^verbatim>\<open>.Nf\<close> and \<^verbatim>\<open>datetime.isoformat\<close>.
\<close>

record pylib =
  json_dumps :: "pyval \<Rightarrow> error + string"
  float_repr :: "real \<Rightarrow> string"
  format_f :: "nat \<Rightarrow> real \<Rightarrow> string"
  isoformat :: "int \<Rightarrow> string"

text \<open>
  The client is a function of the prompt that returns a response or raises. The prompts
  it has been called with are kept as a list, passed through the functions that can call
  it.
\<close>

record LLMPostProcessor =
  client :: "(string \<Rightarrow> error + pyval) option"
  horizon_hours :: int

text \<open>\<^verbatim>\<open>LLMPostProcessor()\<close> with the default fields.\<close>

definition default_post_processor :: LLMPostProcessor where
  "default_post_processor = \<lparr>client = None, horizon_hours = 72\<rparr>"

subsection \<open>\<^verbatim>\<open>build_prompt\<close>\<close>

fun str_join :: "string \<Rightarrow> string list \<Rightarrow> string" where
  "str_join sep [] = []"
| "str_join sep [x] = x"
| "str_join sep (x # y # ys) = x @ sep @ str_join sep (y # ys)"

definition state_line :: "pylib \<Rightarrow> AtmosphericState \<Rightarrow> string" where
  "state_line lib state =
     isoformat lib (timestamp state) @ '' | T='' @ format_f lib 1 (temperature_c state) @ ''C | ''
     @ ''RH='' @ format_f lib 1 (relative_humidity state) @ ''% | P=''
     @ format_f lib 2 (precipitation_mm state) @ ''mm | ''
     @ ''SM='' @ format_f lib 3 (soil_moisture state)"

definition feature_line :: "pylib \<Rightarrow> string \<times> real \<Rightarrow> string" where
  "feature_line lib item = ''- '' @ fst item @ '': '' @ format_f lib 3 (snd item)"

text \<open>
  \<^verbatim>\<open>sorted(features.items())\<close> orders the items by their keys, which are distinct in a
  dictionary.
\<close>

definition build_prompt ::
  "pylib \<Rightarrow> AtmosphericState \<Rightarrow> AtmosphericState list \<Rightarrow> (string \<times> real) list \<Rightarrow> string" where
  "build_prompt lib initial_state projected_states features =
     (let state_lines = map (state_line lib) projected_states;
          feature_lines = str_join [CHR 0x0A] (map (feature_line lib) (sort_key fst features))
      in ''You are an expert hydrologist. Based on the projected atmospheric ''
         @ ''states, estimate the soil moisture for the next 72 hours in hourly ''
         @ ''increments. Return the results as a JSON object with the key ''
         @ [CHR 0x27] @ ''soil_moisture'' @ [CHR 0x27]
         @ '' containing a list of 72 decimal numbers between 0 and 1.'' @ [CHR 0x0A]
         @ ''Initial state: ''
         @ ''T='' @ format_f lib 1 (temperature_c initial_state) @ ''C, RH=''
         @ format_f lib 1 (relative_humidity initial_state) @ ''%, ''
         @ ''P='' @ format_f lib 2 (precipitation_mm initial_state) @ ''mm, SM=''
         @ format_f lib 3 (soil_moisture initial_state) @ ''.'' @ [CHR 0x0A]
         @ ''Projected states (hourly):'' @ [CHR 0x0A]
         @ str_join [CHR 0x0A] state_lines
         @ [CHR 0x0A] @ ''Key summary features:'' @ [CHR 0x0A]
         @ feature_lines)"

subsection \<open>\<^verbatim>\<open>_call_client\<close>\<close>

definition call_client ::
  "LLMPostProcessor \<Rightarrow> string \<Rightarrow> string list \<Rightarrow> (error + pyval) \<times> string list" where
  "call_client self prompt calls =
     (case client self of
        None \<Rightarrow> (Inl (RuntimeError ''No LLM client configured for post-processing''), calls)
      | Some f \<Rightarrow> (f prompt, calls @ [prompt]))"

subsection \<open>\<^verbatim>\<open>_coerce_response_text\<close>\<close>

text \<open>\<^verbatim>\<open>str(i)\<close> for an \<^verbatim>\<open>int\<close>.\<close>

fun nat_str :: "nat \<Rightarrow> string" where
  "nat_str n = (if n < 10 then [char_of (48 + n)] else nat_str (n div 10) @ [char_of (48 + n mod 10)])"

definition int_str :: "int \<Rightarrow> string" where
  "int_str i = (if i < 0 then CHR ''-'' # nat_str (nat (- i)) else nat_str (nat i))"

text \<open>
  The last six equations are the final \<^verbatim>\<open>str(response)\<close>, by the type of the response;
  \<open>PObject s\<close> is an object of any other type, \<open>s\<close> the text \<^verbatim>\<open>str\<close> gives for it.
\<close>

fun coerce_response_text :: "pylib \<Rightarrow> pyval \<Rightarrow> error + string" where
  "coerce_response_text lib (PStr s) = Inr s"
| "coerce_response_text lib (PDict kvs) = json_dumps lib (PDict kvs)"
| "coerce_response_text lib (PList (x # xs)) = coerce_response_text lib x"
| "coerce_response_text lib (PTuple (x # xs)) = coerce_response_text lib x"
| "coerce_response_text lib (PList []) = Inr ''[]''"
| "coerce_response_text lib (PTuple []) = Inr ''()''"
| "coerce_response_text lib PNone = Inr ''None''"
| "coerce_response_text lib (PBool b) = Inr (if b then ''True'' else ''False'')"
| "coerce_response_text lib (PInt i) = Inr (int_str i)"
| "coerce_response_text lib (PFloat x) = Inr (float_repr lib x)"
| "coerce_response_text lib (PObject s) = Inr s"

subsection \<open>\<^verbatim>\<open>parse_response\<close>\<close>

text \<open>The list comprehension \<^verbatim>\<open>[float(value) for value in matches]\<close>.\<close>

fun float_each :: "string list \<Rightarrow> error + real list" where
  "float_each [] = Inr []"
| "float_each (m # ms) =
     (case float_str m of Inl e \<Rightarrow> Inl e | Inr x \<Rightarrow>
     (case float_each ms of Inl e \<Rightarrow> Inl e | Inr xs \<Rightarrow> Inr (x # xs)))"

text \<open>
  What iterating a value yields, \<open>None\<close> when the value is not an \<^verbatim>\<open>Iterable\<close>: the items
  of a list or tuple, the keys of a dictionary, the characters of a string.
\<close>

fun py_iter :: "pyval \<Rightarrow> pyval list option" where
  "py_iter (PList xs) = Some xs"
| "py_iter (PTuple xs) = Some xs"
| "py_iter (PDict kvs) = Some (map (\<lambda>kv. PStr (fst kv)) kvs)"
| "py_iter (PStr s) = Some (map (\<lambda>c. PStr [c]) s)"
| "py_iter PNone = None"
| "py_iter (PBool b) = None"
| "py_iter (PInt i) = None"
| "py_iter (PFloat x) = None"
| "py_iter (PObject s) = None"

text \<open>The loop over the candidate values, with its \<^verbatim>\<open>except (TypeError, ValueError)\<close>.\<close>

fun convert_loop :: "pyval list \<Rightarrow> real list \<Rightarrow> error + real list" where
  "convert_loop [] result = Inr result"
| "convert_loop (v # vs) result =
     (case py_float v of
        Inr x \<Rightarrow> convert_loop vs (result @ [x])
      | Inl TypeError \<Rightarrow> Inl (ValueError ''Invalid soil moisture value in LLM response'')
      | Inl (ValueError m) \<Rightarrow> Inl (ValueError ''Invalid soil moisture value in LLM response'')
      | Inl e \<Rightarrow> Inl e)"

definition candidate_of :: "pyval \<Rightarrow> pyval" where
  "candidate_of data =
     (case data of
        PDict kvs \<Rightarrow> (case map_of kvs ''soil_moisture'' of None \<Rightarrow> data | Some v \<Rightarrow> v)
      | _ \<Rightarrow> data)"

definition parse_response :: "pylib \<Rightarrow> LLMPostProcessor \<Rightarrow> pyval \<Rightarrow> error + real list" where
  "parse_response lib self response =
     (case coerce_response_text lib response of
        Inl e \<Rightarrow> Inl e
      | Inr txt \<Rightarrow>
          (case json_loads txt of
             Inl JSONDecodeError \<Rightarrow>
               (case float_each (findall txt) of
                  Inl e \<Rightarrow> Inl e
                | Inr numbers \<Rightarrow> Inr (py_slice_to numbers (horizon_hours self)))
           | Inl e \<Rightarrow> Inl e
           | Inr data \<Rightarrow>
               (case py_iter (candidate_of data) of
                  None \<Rightarrow> Inl (ValueError ''LLM response does not contain an iterable of values'')
                | Some items \<Rightarrow>
                    (case convert_loop items [] of
                       Inl e \<Rightarrow> Inl e
                     | Inr result \<Rightarrow> Inr (py_slice_to result (horizon_hours self))))))"

subsection \<open>\<^verbatim>\<open>postprocess\<close>\<close>

definition postprocess ::
  "pylib \<Rightarrow> LLMPostProcessor \<Rightarrow> AtmosphericState \<Rightarrow> AtmosphericState list
     \<Rightarrow> (string \<times> real) list \<Rightarrow> string list \<Rightarrow> (error + SoilMoistureForecast) \<times> string list" where
  "postprocess lib self initial_state projected_states features calls =
     (let prompt = build_prompt lib initial_state projected_states features
      in (case call_client self prompt calls of
            (Inl e, calls') \<Rightarrow> (Inl e, calls')
          | (Inr response, calls') \<Rightarrow>
              (case parse_response lib self response of
                 Inl e \<Rightarrow> (Inl e, calls')
               | Inr vals \<Rightarrow>
                   (Inr \<lparr>issued_at = (case projected_states of
                                         [] \<Rightarrow> timestamp initial_state
                                       | s # ss \<Rightarrow> timestamp s),
                         SoilMoistureForecast.horizon_hours = horizon_hours self,
                         forecast_values = vals,
                         metadata = [''prompt'' \<mapsto> MStr prompt]\<rparr>,
                    calls'))))"

section \<open>pipeline.py\<close>

text \<open>The loop \<^verbatim>\<open>while len(extended) < hours_ahead: extended.append(last_value)\<close>.\<close>

function extend_loop :: "real list \<Rightarrow> int \<Rightarrow> real \<Rightarrow> real list" where
  "extend_loop extended hours_ahead last_value =
     (if int (length extended) < hours_ahead
      then extend_loop (extended @ [last_value]) hours_ahead last_value
      else extended)"
  by pat_completeness auto
termination
  by (relation "measure (\<lambda>(extended, hours_ahead, last_value). nat (hours_ahead - int (length extended)))")
     auto

text \<open>
  \<open>now\<close> is the text of \<^verbatim>\<open>datetime.utcnow().isoformat()\<close> at the call. A post-processor
  and a model are objects without \<^verbatim>\<open>__bool__\<close> or \<^verbatim>\<open>__len__\<close>, so \<^verbatim>\<open>x or default\<close> takes the
  default for \<^verbatim>\<open>None\<close> only.
\<close>

definition predict_three_day_soil_moisture ::
  "pylib \<Rightarrow> string \<Rightarrow> AtmosphericState \<Rightarrow> (string \<rightharpoonup> pyval) list
     \<Rightarrow> DeterministicAtmosphericModel option \<Rightarrow> LLMPostProcessor option \<Rightarrow> string list
     \<Rightarrow> (error + SoilMoistureForecast) \<times> string list" where
  "predict_three_day_soil_moisture lib now initial_state weather_data model post_processor calls =
     (let model = (case model of None \<Rightarrow> default_model | Some m \<Rightarrow> m);
          post_processor = (case post_processor of None \<Rightarrow> default_post_processor | Some p \<Rightarrow> p)
      in (case load_numerical_weather_outputs weather_data of
            Inl e \<Rightarrow> (Inl e, calls)
          | Inr normalised_weather \<Rightarrow>
              (let hours_ahead = horizon_hours post_processor
               in (case predict model initial_state normalised_weather hours_ahead of
                     Inl e \<Rightarrow> (Inl e, calls)
                   | Inr projected_states \<Rightarrow>
                       (case export_soil_moisture_features projected_states of
                          Inl e \<Rightarrow> (Inl e, calls)
                        | Inr features \<Rightarrow>
                            (case postprocess lib post_processor initial_state projected_states
                                    features calls of
                               (Inl e, calls') \<Rightarrow> (Inl e, calls')
                             | (Inr forecast, calls') \<Rightarrow>
                                 (let forecast =
                                        (if int (length (forecast_values forecast)) < hours_ahead
                                         then
                                           (let extended = forecast_values forecast;
                                                last_value = (case extended of
                                                                [] \<Rightarrow> soil_moisture initial_state
                                                              | x # xs \<Rightarrow> last extended)
                                            in forecast\<lparr>forecast_values :=
                                                 extend_loop extended hours_ahead last_value\<rparr>)
                                         else forecast);
                                      md = metadata forecast;
                                      md = (case md ''issued_at'' of
                                              None \<Rightarrow> md(''issued_at'' \<mapsto> MStr now)
                                            | Some v \<Rightarrow> md);
                                      md = md(''features'' \<mapsto> MFeatures features)
                                  in (Inr (forecast\<lparr>metadata := md\<rparr>), calls'))))))))"

text \<open>The mean of the \<open>k\<close>-th 24-hour chunk of a series, as the loop computes it.\<close>

definition chunk_mean :: "real list \<Rightarrow> nat \<Rightarrow> real" where
  "chunk_mean vs k = sum_list (py_slice vs (int k * 24) (int k * 24 + 24))
                            / real (length (py_slice vs (int k * 24) (int k * 24 + 24)))"

section \<open>Properties of core.py\<close>



lemma evolve_state_Inr:
  assumes "normalised_record w"
      and "0 \<le> timestamp st + step" and "timestamp st + step \<le> datetime_max"
  shows "\<exists>s'. evolve_state st w step m = Inr s' \<and> timestamp s' = timestamp st + step"
  using assms
  by (auto simp add: normalised_record_def evolve_state_def dict_item_def datetime_add_def Let_def)

lemma list_item_nat: "k < length xs \<Longrightarrow> list_item xs (int k) = Inr (xs ! k)"
  by (simp add: list_item_def)

lemma predict_loop_gen:
  assumes "n \<le> length ws" and "\<forall>w\<in>set ws. normalised_record w"
  shows "k \<le> n \<Longrightarrow> 0 \<le> timestamp cur
      \<Longrightarrow> timestamp cur + int (n - k) * timedelta_hours 1 \<le> datetime_max
      \<Longrightarrow> \<exists>sts. predict_loop m ws (map int [k..<n]) cur acc = Inr (acc @ sts)
            \<and> length sts = n - k
            \<and> (\<forall>i<length sts.
                  evolve_state (if i = 0 then cur else sts ! (i - 1)) (ws ! (k + i))
                    (timedelta_hours 1) m = Inr (sts ! i)
                  \<and> timestamp (sts ! i) = timestamp cur + (int i + 1) * timedelta_hours 1)"
proof (induction "n - k" arbitrary: k cur acc)
  case 0
  then show ?case by simp
next
  case (Suc d)
  let ?H = "timedelta_hours 1"
  have hpos: "0 < ?H" by (simp add: timedelta_hours_def)
  from Suc.hyps(2) have kn: "k < n" by simp
  then have klen: "k < length ws" using assms(1) by simp
  then have nw: "normalised_record (ws ! k)" using assms(2) by simp
  have up: "[k..<n] = k # [Suc k..<n]" using kn by (simp add: upt_conv_Cons)
  have d1: "int (n - k) = int (n - Suc k) + 1" using kn by simp
  have b1: "timestamp cur + ?H \<le> datetime_max"
  proof -
    have "0 \<le> int (n - Suc k) * ?H" using hpos by simp
    then show ?thesis using Suc.prems(3) d1 by (simp add: algebra_simps)
  qed
  obtain s1 where s1: "evolve_state cur (ws ! k) ?H m = Inr s1"
      and t1: "timestamp s1 = timestamp cur + ?H"
    using evolve_state_Inr[OF nw, of cur ?H m] Suc.prems(2) hpos b1 by auto
  have ih_pre: "timestamp s1 + int (n - Suc k) * ?H \<le> datetime_max"
    using Suc.prems(3) d1 t1 by (simp add: algebra_simps)
  have "d = n - Suc k" using Suc.hyps(2) by simp
  from Suc.hyps(1)[OF this, of s1 "acc @ [s1]"] kn t1 Suc.prems(2) hpos ih_pre
  obtain sts where
    r: "predict_loop m ws (map int [Suc k..<n]) s1 (acc @ [s1]) = Inr ((acc @ [s1]) @ sts)"
    and l: "length sts = n - Suc k"
    and c: "\<forall>i<length sts.
              evolve_state (if i = 0 then s1 else sts ! (i - 1)) (ws ! (Suc k + i)) ?H m
                = Inr (sts ! i)
              \<and> timestamp (sts ! i) = timestamp s1 + (int i + 1) * ?H"
    by auto
  have run: "predict_loop m ws (map int [k..<n]) cur acc = Inr (acc @ (s1 # sts))"
    using up r s1 list_item_nat[OF klen] by simp
  have len: "length (s1 # sts) = n - k" using l kn by simp
  have chain: "\<forall>i<length (s1 # sts).
      evolve_state (if i = 0 then cur else (s1 # sts) ! (i - 1)) (ws ! (k + i)) ?H m
        = Inr ((s1 # sts) ! i)
      \<and> timestamp ((s1 # sts) ! i) = timestamp cur + (int i + 1) * ?H"
  proof (intro allI impI)
    fix i assume i: "i < length (s1 # sts)"
    show "evolve_state (if i = 0 then cur else (s1 # sts) ! (i - 1)) (ws ! (k + i)) ?H m
            = Inr ((s1 # sts) ! i)
          \<and> timestamp ((s1 # sts) ! i) = timestamp cur + (int i + 1) * ?H"
    proof (cases i)
      case 0
      then show ?thesis using s1 t1 by simp
    next
      case (Suc j)
      then have j: "j < length sts" using i by simp
      from c j have
        e: "evolve_state (if j = 0 then s1 else sts ! (j - 1)) (ws ! (Suc k + j)) ?H m
              = Inr (sts ! j)"
        and t: "timestamp (sts ! j) = timestamp s1 + (int j + 1) * ?H"
        by auto
      have prev: "(s1 # sts) ! j = (if j = 0 then s1 else sts ! (j - 1))"
        by (cases j) simp_all
      have e': "evolve_state ((s1 # sts) ! j) (ws ! (k + Suc j)) ?H m = Inr (sts ! j)"
        using e by (simp only: prev add_Suc_right add_Suc)
      have t': "timestamp (sts ! j) = timestamp cur + (int (Suc j) + 1) * ?H"
        using t t1 by (simp add: algebra_simps)
      show ?thesis using Suc e' t' by simp
    qed
  qed
  show ?case using run len chain by blast
qed



lemma py_slice_nonneg:
  "0 \<le> a \<Longrightarrow> a \<le> b \<Longrightarrow> py_slice xs a b = take (nat (b - a)) (drop (nat a) xs)"
  by (auto simp add: py_slice_def slice_bound_def Let_def min_def)

lemma chunk24: "py_slice vs (int k * 24) (int k * 24 + 24) = take 24 (drop (k * 24) vs)"
proof -
  have "nat (int k * 24) = k * 24" by (simp add: nat_mult_distrib)
  then show ?thesis by (simp add: py_slice_nonneg)
qed

lemma arith24: "(n \<le> k * 24) = ((n + 23) div 24 \<le> (k::nat))"
  by linarith


lemma chunk24_empty: "(take 24 (drop (k * 24) vs) = []) = ((length vs + 23) div 24 \<le> k)"
  using arith24[of "length vs" k] by (simp add: take_eq_Nil)

lemma daily_loop_24:
  "i \<le> D \<Longrightarrow>
   daily_loop vs 24 (map (\<lambda>k. int k * 24) [i..<D]) acc =
     Inr (acc @ map (chunk_mean vs) [i..<min D ((length vs + 23) div 24)])"
proof (induction "D - i" arbitrary: i acc)
  case 0
  then show ?case by simp
next
  case (Suc d)
  then have iD: "i < D" by simp
  have up: "[i..<D] = i # [Suc i..<D]" using iD by (simp add: upt_conv_Cons)
  show ?case
  proof (cases "(length vs + 23) div 24 \<le> i")
    case True
    then have e: "py_slice vs (int i * 24) (int i * 24 + 24) = []"
      by (simp only: chunk24 chunk24_empty)
    have "[i..<min D ((length vs + 23) div 24)] = []" using True by simp
    then show ?thesis using e up by (simp add: Let_def)
  next
    case False
    then have ne: "py_slice vs (int i * 24) (int i * 24 + 24) \<noteq> []"
      by (simp only: chunk24 chunk24_empty) simp
    have lt: "i < min D ((length vs + 23) div 24)" using False iD by simp
    have up2: "[i..<min D ((length vs + 23) div 24)] = i # [Suc i..<min D ((length vs + 23) div 24)]"
      using lt by (simp add: upt_conv_Cons)
    have d: "d = D - Suc i" using Suc.hyps(2) by simp
    have ih: "daily_loop vs 24 (map (\<lambda>k. int k * 24) [Suc i..<D]) (acc @ [chunk_mean vs i]) =
       Inr ((acc @ [chunk_mean vs i]) @ map (chunk_mean vs) [Suc i..<min D ((length vs + 23) div 24)])"
      using Suc.hyps(1)[OF d, of "acc @ [chunk_mean vs i]"] iD by simp
    have len0: "real (length (py_slice vs (int i * 24) (int i * 24 + 24))) \<noteq> 0" using ne by simp
    have step: "daily_loop vs 24 (map (\<lambda>k. int k * 24) (i # [Suc i..<D])) acc
        = daily_loop vs 24 (map (\<lambda>k. int k * 24) [Suc i..<D]) (acc @ [chunk_mean vs i])"
      using ne len0 by (simp add: Let_def py_truediv_def chunk_mean_def del: upt_Suc)
    show ?thesis
      apply (subst up)
      apply (subst up2)
      using step ih by (simp del: upt_Suc)
  qed
qed


lemma int_div24: "int ((n + 23) div 24) = (int n + 23) div 24"
  by (simp add: zdiv_int)

lemma neg_div24: "- (- (a::int) div 24) = (a + 23) div 24"
  by linarith

lemma div24_le: "(a::int) \<le> h \<Longrightarrow> 0 < h \<Longrightarrow> (a + 23) div 24 \<le> (h - 1) div 24 + 1"
  by linarith

lemma ceiling_div24: "nat \<lceil>real n / 24\<rceil> = (n + 23) div 24"
proof -
  have "\<lceil>real n / 24\<rceil> = \<lceil>(of_int (int n) :: real) / of_int 24\<rceil>" by simp
  also have "\<dots> = - (- int n div 24)" by (rule ceiling_divide_eq_div)
  also have "\<dots> = (int n + 23) div 24" by (rule neg_div24)
  finally have "\<lceil>real n / 24\<rceil> = int ((n + 23) div 24)" by (simp only: int_div24)
  then show ?thesis by simp
qed

lemma range_count24:
  assumes "int n \<le> h"
  shows "(n + 23) div 24 \<le> (if 0 < h then nat ((h - 1) div 24 + 1) else 0)"
proof (cases "0 < h")
  case True
  have "(int n + 23) div 24 \<le> (h - 1) div 24 + 1" using assms True by (rule div24_le)
  then have "int ((n + 23) div 24) \<le> (h - 1) div 24 + 1" by (simp only: int_div24)
  then show ?thesis using True by simp
next
  case False
  then have "n = 0" using assms by simp
  then show ?thesis using False by simp
qed

text \<open>
  C1. For a weather record that holds the three forcing keys and a step that keeps the
  timestamp a \<^verbatim>\<open>datetime\<close>, \<^const>\<open>evolve_state\<close> returns a state whose soil moisture is the
  previous soil moisture plus precipitation times percolation rate times hours, minus
  (1 - humidity/100) times evaporation rate times hours, clamped to [0, 1]. Nothing is
  asked of the input soil moisture: the result lies in [0, 1] also when the input does not.
\<close>

theorem evolve_state_soil_moisture_clamped:
  assumes "weather ''temperature_c'' = Some t"
      and "weather ''relative_humidity'' = Some hum"
      and "weather ''precipitation_mm'' = Some p"
      and "0 \<le> timestamp state + step" and "timestamp state + step \<le> datetime_max"
  shows "\<exists>s'. evolve_state state weather step model = Inr s'
           \<and> soil_moisture s' =
               max 0 (min 1 (soil_moisture state
                  + p * percolation_rate model * (total_seconds step / 3600)
                  - (1 - hum / 100) * evaporation_rate model * (total_seconds step / 3600)))
           \<and> 0 \<le> soil_moisture s' \<and> soil_moisture s' \<le> 1"
  using assms by (simp add: evolve_state_def dict_item_def datetime_add_def Let_def)

theorem evolve_state_soil_moisture_clamped_witness:
  "\<exists>s'. evolve_state
          \<lparr>timestamp = 0, temperature_c = 18, relative_humidity = 60,
           precipitation_mm = 1 / 2, soil_moisture = 7\<rparr>
          [''temperature_c'' \<mapsto> 18, ''relative_humidity'' \<mapsto> 55, ''precipitation_mm'' \<mapsto> 2]
          (timedelta_hours 1) default_model = Inr s' \<and> soil_moisture s' = 1"
  using evolve_state_soil_moisture_clamped
    [of "[''temperature_c'' \<mapsto> 18, ''relative_humidity'' \<mapsto> 55, ''precipitation_mm'' \<mapsto> 2]"
        18 55 2
        "\<lparr>timestamp = 0, temperature_c = 18, relative_humidity = 60,
          precipitation_mm = 1 / 2, soil_moisture = 7\<rparr>"
        "timedelta_hours 1" default_model]
  by (auto simp add: timedelta_hours_def datetime_max_def default_model_def total_seconds_def)

lemma predict_states:
  assumes "\<forall>w\<in>set ws. normalised_record w"
      and "0 \<le> timestamp init"
      and "timestamp init + int (nat (min h (int (length ws)))) * timedelta_hours 1
             \<le> datetime_max"
  shows "\<exists>states. predict model init ws h = Inr states
           \<and> length states = nat (min h (int (length ws)))
           \<and> (0 \<le> h \<longrightarrow> int (length states) = min h (int (length ws)))
           \<and> (0 \<le> h \<and> h \<le> int (length ws) \<longrightarrow> int (length states) = h)
           \<and> (\<forall>i<length states.
                 evolve_state (if i = 0 then init else states ! (i - 1)) (ws ! i)
                   (timedelta_hours 1) model = Inr (states ! i)
                 \<and> timestamp (states ! i)
                     = timestamp (if i = 0 then init else states ! (i - 1)) + timedelta_hours 1
                 \<and> timestamp (states ! i) = timestamp init + (int i + 1) * timedelta_hours 1)"
proof -
  let ?n = "nat (min h (int (length ws)))"
  have n: "?n \<le> length ws" by simp
  from predict_loop_gen[OF n assms(1), of 0 init model "[]"] assms(2,3)
  obtain sts where
    r: "predict_loop model ws (map int [0..<?n]) init [] = Inr sts"
    and l: "length sts = ?n"
    and c: "\<forall>i<length sts.
              evolve_state (if i = 0 then init else sts ! (i - 1)) (ws ! i)
                (timedelta_hours 1) model = Inr (sts ! i)
              \<and> timestamp (sts ! i) = timestamp init + (int i + 1) * timedelta_hours 1"
    by auto
  have p: "predict model init ws h = Inr sts"
    using r by (simp add: predict_def py_range_def)
  have ts: "timestamp (sts ! i)
              = timestamp (if i = 0 then init else sts ! (i - 1)) + timedelta_hours 1"
    if "i < length sts" for i
  proof (cases i)
    case 0
    then show ?thesis using c that by simp
  next
    case (Suc j)
    then have "j < length sts" using that by simp
    then have "timestamp (sts ! j) = timestamp init + (int j + 1) * timedelta_hours 1"
      using c by simp
    moreover have "timestamp (sts ! i) = timestamp init + (int i + 1) * timedelta_hours 1"
      using c that by simp
    ultimately show ?thesis using Suc by (simp add: algebra_simps)
  qed
  have l1: "0 \<le> h \<longrightarrow> int (length sts) = min h (int (length ws))" using l by simp
  have l2: "0 \<le> h \<and> h \<le> int (length ws) \<longrightarrow> int (length sts) = h" using l by simp
  show ?thesis using p l l1 l2 c ts by blast
qed

text \<open>
  C2. On normalised weather records \<^const>\<open>predict\<close> returns \<open>min hours_ahead (length ws)\<close>
  states (none when that is negative); state \<open>i\<close> is \<^const>\<open>evolve_state\<close> applied with a
  one-hour step to the state before it (the initial state for \<open>i = 0\<close>) and record \<open>i\<close>,
  so each timestamp is one hour after the previous one, the first one hour after the
  initial timestamp. With at least \<open>hours_ahead\<close> records there are \<open>hours_ahead\<close> states.
\<close>

theorem predict_returns_min_states:
  assumes "\<forall>w\<in>set ws. normalised_record w"
      and "0 \<le> timestamp init"
      and "timestamp init + int (nat (min h (int (length ws)))) * timedelta_hours 1
             \<le> datetime_max"
  shows "\<exists>states. predict model init ws h = Inr states
           \<and> length states = nat (min h (int (length ws)))
           \<and> (0 \<le> h \<longrightarrow> int (length states) = min h (int (length ws)))
           \<and> (0 \<le> h \<and> h \<le> int (length ws) \<longrightarrow> int (length states) = h)
           \<and> (\<forall>i<length states.
                 evolve_state (if i = 0 then init else states ! (i - 1)) (ws ! i)
                   (timedelta_hours 1) model = Inr (states ! i)
                 \<and> timestamp (states ! i)
                     = timestamp (if i = 0 then init else states ! (i - 1)) + timedelta_hours 1
                 \<and> timestamp (states ! i) = timestamp init + (int i + 1) * timedelta_hours 1)"
  using assms by (rule predict_states)

theorem predict_returns_min_states_witness:
  "\<exists>states. predict default_model
       \<lparr>timestamp = 0, temperature_c = 18, relative_humidity = 60,
        precipitation_mm = 1 / 2, soil_moisture = 4 / 10\<rparr>
       (replicate 3 [''temperature_c'' \<mapsto> 18, ''relative_humidity'' \<mapsto> 55,
                     ''precipitation_mm'' \<mapsto> 2, ''hour_index'' \<mapsto> 0]) 2 = Inr states
     \<and> length states = 2
     \<and> timestamp (states ! 0) = 3600000000 \<and> timestamp (states ! 1) = 7200000000"
proof -
  let ?w = "[''temperature_c'' \<mapsto> 18, ''relative_humidity'' \<mapsto> 55,
             ''precipitation_mm'' \<mapsto> 2, ''hour_index'' \<mapsto> (0::real)]"
  let ?init = "\<lparr>timestamp = 0, temperature_c = 18, relative_humidity = 60,
                precipitation_mm = 1 / 2, soil_moisture = 4 / 10\<rparr>"
  have a: "\<forall>w\<in>set (replicate 3 ?w). normalised_record w"
    by (simp add: normalised_record_def)
  have b: "0 \<le> timestamp ?init" by simp
  have c: "timestamp ?init + int (nat (min 2 (int (length (replicate 3 ?w))))) * timedelta_hours 1
             \<le> datetime_max"
    by (simp add: timedelta_hours_def datetime_max_def)
  from predict_returns_min_states[OF a b c, of default_model]
  obtain states where
    p: "predict default_model ?init (replicate 3 ?w) 2 = Inr states"
    and l: "length states = nat (min 2 (int (length (replicate 3 ?w))))"
    and t: "\<forall>i<length states. timestamp (states ! i)
                = timestamp ?init + (int i + 1) * timedelta_hours 1"
    by blast
  have l2: "length states = 2" using l by simp
  have "timestamp (states ! 0) = 3600000000" using t l2 by (simp add: timedelta_hours_def)
  moreover have "timestamp (states ! 1) = 7200000000"
    using t l2 by (simp add: timedelta_hours_def)
  ultimately show ?thesis using p l2 by blast
qed

text \<open>
  C8. On the empty sequence \<^const>\<open>export_soil_moisture_features\<close> returns the four
  features as 0 and does not fail; on a non-empty sequence it returns the means of
  temperature and humidity, the sum of precipitation and the soil moisture of the last
  state.
\<close>

theorem export_soil_moisture_features_values:
  "export_soil_moisture_features [] =
       Inr [(''mean_temperature'', 0), (''mean_humidity'', 0),
            (''total_precipitation'', 0), (''final_soil_moisture'', 0)]
   \<and> (states \<noteq> [] \<longrightarrow>
        export_soil_moisture_features states =
          Inr [(''mean_temperature'', (\<Sum>s\<leftarrow>states. temperature_c s) / real (length states)),
               (''mean_humidity'', (\<Sum>s\<leftarrow>states. relative_humidity s) / real (length states)),
               (''total_precipitation'', (\<Sum>s\<leftarrow>states. precipitation_mm s)),
               (''final_soil_moisture'', soil_moisture (last states))])"
proof -
  have "list_item states (- 1) = Inr (last states)" if "states \<noteq> []"
  proof -
    have "nat (int (length states) - 1) = length states - 1" by simp
    moreover have "Suc 0 \<le> length states" using that by (cases states) simp_all
    ultimately show ?thesis using that by (simp add: list_item_def last_conv_nth)
  qed
  then show ?thesis
    by (simp add: export_soil_moisture_features_def py_truediv_def Let_def)
qed

theorem export_soil_moisture_features_values_witness:
  "export_soil_moisture_features
     [\<lparr>timestamp = 0, temperature_c = 10, relative_humidity = 40,
       precipitation_mm = 1, soil_moisture = 3 / 10\<rparr>,
      \<lparr>timestamp = 1, temperature_c = 20, relative_humidity = 60,
       precipitation_mm = 2, soil_moisture = 1 / 2\<rparr>] =
     Inr [(''mean_temperature'', 15), (''mean_humidity'', 50),
          (''total_precipitation'', 3), (''final_soil_moisture'', 1 / 2)]"
  using export_soil_moisture_features_values
    [of "[\<lparr>timestamp = 0, temperature_c = 10, relative_humidity = 40,
            precipitation_mm = 1, soil_moisture = 3 / 10\<rparr>,
          \<lparr>timestamp = 1, temperature_c = 20, relative_humidity = 60,
            precipitation_mm = 2, soil_moisture = 1 / 2\<rparr>]"]
  by simp

text \<open>
  C9. When no more values are stored than \<open>horizon_hours\<close>, \<^const>\<open>to_daily_averages\<close> with
  24 hours per day returns without error one entry per started 24-hour chunk of the
  stored values, entry \<open>k\<close> the mean of \<^verbatim>\<open>values[24k : 24k+24]\<close>. With exactly
  \<open>horizon_hours\<close> values these are \<open>\<lceil>horizon_hours / 24\<rceil>\<close> entries; with fewer, the days
  after the last stored value give no entry.
\<close>

theorem to_daily_averages_24:
  assumes "int (length (forecast_values f)) \<le> SoilMoistureForecast.horizon_hours f"
  shows "\<exists>avgs. to_daily_averages f 24 = Inr avgs
           \<and> length avgs = nat \<lceil>real (length (forecast_values f)) / 24\<rceil>
           \<and> (int (length (forecast_values f)) = SoilMoistureForecast.horizon_hours f \<longrightarrow>
                length avgs = nat \<lceil>real_of_int (SoilMoistureForecast.horizon_hours f) / 24\<rceil>)
           \<and> (\<forall>k<length avgs.
                 avgs ! k =
                   sum_list (py_slice (forecast_values f) (24 * int k) (24 * int k + 24))
                   / real (length (py_slice (forecast_values f) (24 * int k) (24 * int k + 24))))"
proof -
  let ?vs = "forecast_values f"
  let ?L = "(length ?vs + 23) div 24"
  let ?D = "(if 0 < SoilMoistureForecast.horizon_hours f then nat ((SoilMoistureForecast.horizon_hours f - 1) div 24 + 1) else 0)"
  let ?avgs = "map (chunk_mean ?vs) [0..<?L]"
  have LD: "?L \<le> ?D" using range_count24[OF assms] .
  have r: "py_range_step (SoilMoistureForecast.horizon_hours f) 24 = Inr (map (\<lambda>k. int k * 24) [0..<?D])"
    by (simp add: py_range_step_def)
  have "daily_loop ?vs 24 (map (\<lambda>k. int k * 24) [0..<?D]) [] = Inr ([] @ map (chunk_mean ?vs) [0..<min ?D ?L])"
    by (rule daily_loop_24) simp
  moreover have "min ?D ?L = ?L" using LD by (simp only: min_def) simp
  ultimately have run: "to_daily_averages f 24 = Inr ?avgs"
    using r by (simp add: to_daily_averages_def)
  have len: "length ?avgs = nat \<lceil>real (length ?vs) / 24\<rceil>"
    by (simp only: ceiling_div24) simp
  have len2: "int (length ?vs) = SoilMoistureForecast.horizon_hours f \<longrightarrow>
                length ?avgs = nat \<lceil>real_of_int (SoilMoistureForecast.horizon_hours f) / 24\<rceil>"
  proof
    assume e: "int (length ?vs) = SoilMoistureForecast.horizon_hours f"
    have "real_of_int (SoilMoistureForecast.horizon_hours f) = real (length ?vs)" using e[symmetric] by simp
    then show "length ?avgs = nat \<lceil>real_of_int (SoilMoistureForecast.horizon_hours f) / 24\<rceil>"
      using len by simp
  qed
  have el: "\<forall>k<length ?avgs. ?avgs ! k =
                   sum_list (py_slice ?vs (24 * int k) (24 * int k + 24))
                   / real (length (py_slice ?vs (24 * int k) (24 * int k + 24)))"
    by (simp add: chunk_mean_def mult.commute)
  show ?thesis using run len len2 el by blast
qed

theorem to_daily_averages_24_witness:
  "\<exists>avgs. to_daily_averages
       \<lparr>issued_at = 0, SoilMoistureForecast.horizon_hours = 72, forecast_values = replicate 30 (1 / 2),
        metadata = Map.empty\<rparr> 24 = Inr avgs \<and> length avgs = 2"
proof -
  let ?f = "\<lparr>issued_at = 0, SoilMoistureForecast.horizon_hours = 72, forecast_values = replicate 30 (1 / 2),
             metadata = Map.empty\<rparr>"
  have a: "int (length (forecast_values ?f)) \<le> SoilMoistureForecast.horizon_hours ?f" by simp
  from to_daily_averages_24[OF a]
  obtain avgs where r: "to_daily_averages ?f 24 = Inr avgs"
    and l: "length avgs = nat \<lceil>real (length (forecast_values ?f)) / 24\<rceil>"
    by blast
  have "nat \<lceil>real (length (forecast_values ?f)) / 24\<rceil> = 2"
    by (simp only: ceiling_div24) simp
  then show ?thesis using r l by auto
qed

section \<open>Properties of llm_postprocessing.py and pipeline.py\<close>

subsection \<open>Slices, loops and conversions\<close>

lemma py_slice_to_nonneg: "0 \<le> h \<Longrightarrow> py_slice_to xs h = take (nat h) xs"
  by (simp add: py_slice_to_def slice_bound_def min_def)

lemma py_slice_to_length: "length (py_slice_to xs h) \<le> length xs"
  by (simp add: py_slice_to_def)

lemma extend_loop_eq: "extend_loop xs h v = xs @ replicate (nat (h - int (length xs))) v"
proof (induction xs h v rule: extend_loop.induct)
  case (1 extended hours_ahead last_value)
  show ?case
  proof (cases "int (length extended) < hours_ahead")
    case True
    then have n: "nat (hours_ahead - int (length extended))
                    = Suc (nat (hours_ahead - int (length (extended @ [last_value]))))"
      by simp
    show ?thesis
      apply (subst extend_loop.simps)
      using True 1[OF True] by (simp only: n if_True replicate_Suc append_assoc append.simps)
  next
    case False
    then show ?thesis by (subst extend_loop.simps) simp
  qed
qed

lemma convert_loop_floats: "convert_loop (map PFloat xs) acc = Inr (acc @ xs)"
  by (induction xs arbitrary: acc) simp_all

lemma export_Inr: "\<exists>f. export_soil_moisture_features states = Inr f"
proof (cases "states = []")
  case True
  then show ?thesis by (simp add: export_soil_moisture_features_def)
next
  case False
  then have l: "Suc 0 \<le> length states" by (cases states) simp_all
  have "nat (int (length states) - 1) = length states - 1" by simp
  then show ?thesis using False l
    by (simp add: export_soil_moisture_features_def py_truediv_def list_item_def Let_def)
qed

lemma load_loop_normalised:
  "load_loop raw i acc = Inr ws \<Longrightarrow> \<forall>w\<in>set acc. normalised_record w
     \<Longrightarrow> (\<forall>w\<in>set ws. normalised_record w) \<and> length ws = length acc + length raw"
proof (induction raw arbitrary: i acc)
  case Nil
  then show ?case by simp
next
  case (Cons entry raw)
  from Cons.prems(1) obtain t h p x where
    r: "load_loop raw (i + 1)
          (acc @ [[''temperature_c'' \<mapsto> t, ''relative_humidity'' \<mapsto> h,
                   ''precipitation_mm'' \<mapsto> p, ''hour_index'' \<mapsto> x]]) = Inr ws"
    by (auto split: sum.splits)
  have "\<forall>w\<in>set (acc @ [[''temperature_c'' \<mapsto> t, ''relative_humidity'' \<mapsto> h,
                   ''precipitation_mm'' \<mapsto> p, ''hour_index'' \<mapsto> x]]). normalised_record w"
    using Cons.prems(2) by (simp add: normalised_record_def)
  from Cons.IH[OF r this] show ?case by simp
qed

end
